theory Spec2Isabelle
  imports Complex_Main "HOL-Library.Word"
begin

section \<open>The data model of gl-util\<close>

text \<open>
  \<open>initGL\<close> of \<^verbatim>\<open>src/gl-util.ts\<close> returns a set of closures over one WebGL2 context
  \<open>gl\<close> and over three variables of its own: \<open>currentProgram\<close>, \<open>currentVao\<close>
  and the \<open>memoized\<close> weak map. The embedding passes these variables as a record.
  What the closures do to the context is kept as the list of native calls they issue,
  in order, and what they print with \<open>console.warn\<close> as a list of warnings.

  Native objects (programs, shaders, buffers, textures, vertex arrays, uniform
  locations) are opaque: only their identity matters, a natural number here. JavaScript
  objects whose identity the code depends on (buffer descriptors as keys of the weak
  map, typed-array views) carry their identity in a field \<open>oid\<close>.
\<close>

type_synonym handle = nat
type_synonym glenum = nat

text \<open>A JavaScript string is a sequence of UTF-16 code units.\<close>

type_synonym jsstring = "16 word list"

datatype typed_ctor =
    Uint8Array | Uint16Array | Uint32Array | BigUint64Array
  | Int8Array | Int16Array | Int32Array | BigInt64Array
  | Float32Array | Float64Array

text \<open>
  A typed array is a view on an \<open>ArrayBuffer\<close>: its constructor, the buffer it views, the
  byte offset of its first element and its length in elements. Its elements are not
  modelled: no function of the module reads them.
\<close>

record typed_array =
  oid :: nat
  ctor :: typed_ctor
  arraybuffer :: nat
  byteOffset :: nat
  len :: nat

text \<open>The calls on the context \<open>gl\<close> that the module issues, with their arguments.\<close>

datatype native_call =
    GL_getUniformLocation "handle option" jsstring
  | GL_createProgram
  | GL_attachShader handle handle
  | GL_linkProgram handle
  | GL_useProgram handle
  | GL_bindVertexArray handle
  | GL_createShader glenum
  | GL_shaderSource handle jsstring
  | GL_compileShader handle
  | GL_getShaderParameter handle glenum
  | GL_getShaderInfoLog handle
  | GL_deleteShader handle
  | GL_getAttribLocation "handle option" jsstring
  | GL_bindBuffer glenum "handle option"
  | GL_bindAttribLocation "handle option" int jsstring
  | GL_enableVertexAttribArray int
  | GL_createBuffer
  | GL_deleteBuffer handle
  | GL_createTexture
  | GL_bindTexture glenum handle
  | GL_texParameterf glenum glenum real
  | GL_texParameteri glenum glenum real
  | GL_deleteTexture handle
  | GL_activeTexture glenum
  | GL_uniform1i "handle option" int
  | GL_createVertexArray
  | GL_bufferData_size glenum nat glenum
  | GL_bufferData glenum typed_array glenum
  | GL_bufferSubData glenum int typed_array
  | GL_vertexAttribDivisor int int
  | GL_vertexAttribIPointer int int "glenum option" int int
  | GL_vertexAttribPointer int int "glenum option" bool int int

text \<open>\<open>console.warn\<close> is called at two places, with a fixed message and a name.\<close>

datatype warning =
    Uniform_not_found jsstring
  | Attribute_not_found jsstring

text \<open>
  What can be thrown: \<open>new Error(message)\<close>, the \<open>TypeError\<close> of a property read on
  \<open>undefined\<close>, and whatever a callback of the caller throws.
\<close>

datatype error = Error jsstring | TypeError | Thrown nat

text \<open>
  The context \<open>gl\<close> as the module reads it: the constants it uses, and the answers of the
  driver to its queries. The location of a uniform or attribute depends on the program
  asked (as passed: \<open>currentProgram\<close> is \<open>undefined\<close> until a program is used) and on
  the name; the compile status and the info log of a shader depend on the type of the
  shader and on the source text handed to \<open>gl.shaderSource\<close>.
\<close>

record gl_ctx =
  gl_ARRAY_BUFFER :: glenum
  gl_STATIC_DRAW :: glenum
  gl_TEXTURE0 :: glenum
  gl_VERTEX_SHADER :: glenum
  gl_FRAGMENT_SHADER :: glenum
  gl_COMPILE_STATUS :: glenum
  gl_TEXTURE_MAX_LOD :: glenum
  gl_TEXTURE_MIN_LOD :: glenum
  gl_FLOAT :: glenum
  gl_INT :: glenum
  gl_getUniformLocation :: "handle option \<Rightarrow> jsstring \<Rightarrow> handle option"
  gl_getAttribLocation :: "handle option \<Rightarrow> jsstring \<Rightarrow> int"
  gl_compileStatus :: "glenum \<Rightarrow> jsstring \<Rightarrow> bool"
  gl_getShaderInfoLog :: "glenum \<Rightarrow> jsstring \<Rightarrow> jsstring"

text \<open>
  The variables of the closure (\<open>currentProgram\<close>, \<open>currentVao\<close>, \<open>memoized\<close>), the
  trace of native calls, the warnings, and the next unused object identity.
  \<open>memoized\<close> is a \<open>WeakMap\<close> from buffer descriptors (by identity) to a \<open>Map\<close> from
  numbers to typed arrays.
\<close>

record gl_state =
  currentProgram :: "handle option"
  currentVao :: "handle option"
  memoized :: "nat \<rightharpoonup> (int \<rightharpoonup> typed_array)"
  calls :: "native_call list"
  warnings :: "warning list"
  next_obj :: nat

text \<open>A call that may throw returns the error or its value, and the state it leaves.\<close>

type_synonym 'a result = "(error + 'a) \<times> gl_state"

text \<open>
  The variables when \<open>initGL\<close> returns; the trace starts after the set-up calls of
  \<open>initGL\<close>.
\<close>

definition initial :: gl_state where
  "initial = \<lparr>currentProgram = None, currentVao = None, memoized = Map.empty,
              calls = [], warnings = [], next_obj = 0\<rparr>"

definition issue :: "native_call \<Rightarrow> gl_state \<Rightarrow> gl_state" where
  "issue c s = s\<lparr>calls := calls s @ [c]\<rparr>"

text \<open>A native \<open>create...\<close> call returns an object that did not exist before.\<close>

definition create :: "native_call \<Rightarrow> gl_state \<Rightarrow> handle \<times> gl_state" where
  "create c s = (next_obj s, s\<lparr>calls := calls s @ [c], next_obj := Suc (next_obj s)\<rparr>)"

definition warn :: "warning \<Rightarrow> gl_state \<Rightarrow> gl_state" where
  "warn w s = s\<lparr>warnings := warnings s @ [w]\<rparr>"

section \<open>Programs and vertex arrays\<close>

definition useProgram :: "handle \<Rightarrow> gl_state \<Rightarrow> gl_state" where
  "useProgram program s =
     (if Some program \<noteq> currentProgram s
      then issue (GL_useProgram program) (s\<lparr>currentProgram := Some program\<rparr>)
      else s)"

definition useVao :: "handle \<Rightarrow> gl_state \<Rightarrow> gl_state" where
  "useVao vao s =
     (if Some vao \<noteq> currentVao s
      then issue (GL_bindVertexArray vao) (s\<lparr>currentVao := Some vao\<rparr>)
      else s)"

definition use :: "handle \<Rightarrow> handle \<Rightarrow> gl_state \<Rightarrow> gl_state" where
  "use webglProgram vao s = useVao vao (useProgram webglProgram s)"

record glshaders =
  vertex :: handle
  fragment :: handle

definition createProgram :: "glshaders \<Rightarrow> gl_state \<Rightarrow> handle \<times> gl_state" where
  "createProgram shaders s =
     (let (program, s1) = create GL_createProgram s;
          s2 = issue (GL_attachShader program (vertex shaders)) s1;
          s3 = issue (GL_attachShader program (fragment shaders)) s2;
          s4 = issue (GL_linkProgram program) s3
      in (program, useProgram program s4))"

definition createVertexArray :: "gl_state \<Rightarrow> handle \<times> gl_state" where
  "createVertexArray s =
     (let (vao, s1) = create GL_createVertexArray s
      in (vao, issue (GL_bindVertexArray vao) s1))"

section \<open>The uniform lookup proxy\<close>

text \<open>The \<open>get\<close> trap of the proxy \<open>uniforms\<close>: reading \<open>uniforms[name]\<close>.\<close>

definition uniforms_get :: "gl_ctx \<Rightarrow> jsstring \<Rightarrow> gl_state \<Rightarrow> handle option \<times> gl_state" where
  "uniforms_get gl name s =
     (let uniform = gl_getUniformLocation gl (currentProgram s) name;
          s1 = issue (GL_getUniformLocation (currentProgram s) name) s;
          s2 = (if uniform = None then warn (Uniform_not_found name) s1 else s1)
      in (uniform, s2))"

section \<open>Shaders\<close>

text \<open>
  \<open>String.prototype.trim\<close> is a built-in of the language, modelled from ECMAScript: it
  removes the leading and trailing code units that are \<open>WhiteSpace\<close> (TAB, VT, FF, the
  byte order mark and the space separators) or \<open>LineTerminator\<close> (LF, CR, LS, PS).
\<close>

definition isWhiteSpace :: "16 word \<Rightarrow> bool" where
  "isWhiteSpace c \<longleftrightarrow>
     c = 0x0009 \<or> c = 0x000B \<or> c = 0x000C \<or> c = 0xFEFF \<or> c = 0x0020 \<or> c = 0x00A0 \<or>
     c = 0x1680 \<or> (0x2000 \<le> c \<and> c \<le> 0x200A) \<or> c = 0x202F \<or> c = 0x205F \<or> c = 0x3000"

definition isLineTerminator :: "16 word \<Rightarrow> bool" where
  "isLineTerminator c \<longleftrightarrow> c = 0x000A \<or> c = 0x000D \<or> c = 0x2028 \<or> c = 0x2029"

definition isTrimmed :: "16 word \<Rightarrow> bool" where
  "isTrimmed c \<longleftrightarrow> isWhiteSpace c \<or> isLineTerminator c"

definition trim :: "jsstring \<Rightarrow> jsstring" where
  "trim str = rev (dropWhile isTrimmed (rev (dropWhile isTrimmed str)))"

text \<open>
  A shader source is a string, or a function of the caller that is given \<open>gl\<close> and
  returns the string; the function may issue calls and may throw.
\<close>

datatype shader_src =
    Src jsstring
  | SrcFn "gl_state \<Rightarrow> jsstring result"

definition src_text :: "shader_src \<Rightarrow> gl_state \<Rightarrow> jsstring result" where
  "src_text src s = (case src of Src str \<Rightarrow> (Inr str, s) | SrcFn f \<Rightarrow> f s)"

text \<open>
  \<open>gl.getShaderParameter(shader, gl.COMPILE_STATUS)\<close> and \<open>gl.getShaderInfoLog(shader)\<close>
  are read from the context for the type of the shader and the text it was given.
\<close>

definition createShader :: "gl_ctx \<Rightarrow> glenum \<Rightarrow> shader_src \<Rightarrow> gl_state \<Rightarrow> handle result" where
  "createShader gl type src s =
     (let (shader, s1) = create (GL_createShader type) s
      in case src_text src s1 of
           (Inl e, s2) \<Rightarrow> (Inl e, s2)
         | (Inr str, s2) \<Rightarrow>
             (let s3 = issue (GL_shaderSource shader (trim str)) s2;
                  s4 = issue (GL_compileShader shader) s3;
                  s5 = issue (GL_getShaderParameter shader (gl_COMPILE_STATUS gl)) s4
              in if \<not> gl_compileStatus gl type (trim str)
                 then (Inl (Error (gl_getShaderInfoLog gl type (trim str))),
                       issue (GL_getShaderInfoLog shader) s5)
                 else (Inr shader, s5)))"

record shaders_src =
  src_vertex :: shader_src
  src_fragment :: shader_src

definition createShaders :: "gl_ctx \<Rightarrow> shaders_src \<Rightarrow> gl_state \<Rightarrow> glshaders result" where
  "createShaders gl src s =
     (case createShader gl (gl_VERTEX_SHADER gl) (src_vertex src) s of
        (Inl e, s1) \<Rightarrow> (Inl e, s1)
      | (Inr v, s1) \<Rightarrow>
          (case createShader gl (gl_FRAGMENT_SHADER gl) (src_fragment src) s1 of
             (Inl e, s2) \<Rightarrow> (Inl e, s2)
           | (Inr f, s2) \<Rightarrow> (Inr \<lparr>vertex = v, fragment = f\<rparr>, s2)))"

definition deleteShaders :: "glshaders \<Rightarrow> gl_state \<Rightarrow> gl_state" where
  "deleteShaders shaders s =
     issue (GL_deleteShader (fragment shaders)) (issue (GL_deleteShader (vertex shaders)) s)"

section \<open>Buffers and vertex attributes\<close>

text \<open>
  \<open>bufferDisposables\<close> has one entry, for \<open>gl.ARRAY_BUFFER\<close>; for any other target
  \<open>useBuffer\<close> returns \<open>undefined\<close>. A \<open>using\<close> declaration runs the disposer of its
  value when its block is left, by return or by throw, and does nothing for
  \<open>undefined\<close>.
\<close>

type_synonym disposable = "gl_state \<Rightarrow> gl_state"

definition bufferDisposables :: "gl_ctx \<Rightarrow> glenum \<Rightarrow> disposable option" where
  "bufferDisposables gl target =
     (if target = gl_ARRAY_BUFFER gl
      then Some (issue (GL_bindBuffer (gl_ARRAY_BUFFER gl) None))
      else None)"

definition useBuffer :: "gl_ctx \<Rightarrow> glenum \<Rightarrow> handle \<Rightarrow> gl_state \<Rightarrow> disposable option \<times> gl_state" where
  "useBuffer gl target buffer s =
     (bufferDisposables gl target, issue (GL_bindBuffer target (Some buffer)) s)"

definition useArrayBuffer :: "gl_ctx \<Rightarrow> handle \<Rightarrow> gl_state \<Rightarrow> disposable option \<times> gl_state" where
  "useArrayBuffer gl buffer s =
     (bufferDisposables gl (gl_ARRAY_BUFFER gl),
      issue (GL_bindBuffer (gl_ARRAY_BUFFER gl) (Some buffer)) s)"

definition leave_using :: "disposable option \<Rightarrow> gl_state \<Rightarrow> gl_state" where
  "leave_using d s = (case d of None \<Rightarrow> s | Some dispose \<Rightarrow> dispose s)"

text \<open>Returns the attribute index, or \<open>undefined\<close> (\<open>None\<close>) when the lookup gave -1.\<close>

definition bindVertexAttribBuffer ::
  "gl_ctx \<Rightarrow> glenum \<Rightarrow> handle \<Rightarrow> jsstring \<Rightarrow> gl_state \<Rightarrow> int option \<times> gl_state" where
  "bindVertexAttribBuffer gl target buffer name s =
     (let index = gl_getAttribLocation gl (currentProgram s) name;
          s1 = issue (GL_getAttribLocation (currentProgram s) name) s
      in if index = - 1 then (None, warn (Attribute_not_found name) s1)
         else
           (let s2 = issue (GL_bindBuffer target (Some buffer)) s1;
                s3 = issue (GL_bindAttribLocation (currentProgram s) index name) s2;
                s4 = issue (GL_enableVertexAttribArray index) s3
            in (Some index, s4)))"

text \<open>
  The attribute-setup callback \<open>attribFn(attrib, target, usage)\<close> is code of the caller:
  it may issue calls, may throw, and returns the data or \<open>undefined\<close>.
\<close>

type_synonym attribFn = "int \<Rightarrow> glenum \<Rightarrow> glenum \<Rightarrow> gl_state \<Rightarrow> typed_array option result"

text \<open>The object \<open>{ buffer }\<close> or \<open>{ buffer, data }\<close> that \<open>addVertexAttrib\<close> returns.\<close>

record vertex_attrib =
  va_buffer :: handle
  va_data :: "typed_array option"

definition addVertexAttrib ::
  "gl_ctx \<Rightarrow> glenum \<Rightarrow> jsstring \<Rightarrow> attribFn \<Rightarrow> glenum option \<Rightarrow> gl_state \<Rightarrow> vertex_attrib result" where
  "addVertexAttrib gl target name attribFn usage s =
     (let (buffer, s1) = create GL_createBuffer s;
          (u, s2) = useBuffer gl target buffer s1;
          (index, s3) = bindVertexAttribBuffer gl target buffer name s2
      in case index of
           None \<Rightarrow> (Inr \<lparr>va_buffer = buffer, va_data = None\<rparr>, leave_using u s3)
         | Some i \<Rightarrow>
             (case attribFn i target (case usage of None \<Rightarrow> gl_STATIC_DRAW gl | Some us \<Rightarrow> us) s3 of
                (Inl e, s4) \<Rightarrow> (Inl e, leave_using u s4)
              | (Inr data, s4) \<Rightarrow>
                  (Inr \<lparr>va_buffer = buffer, va_data = data\<rparr>, leave_using u s4)))"

text \<open>
  The buffer descriptor \<open>GLBuffer\<close>. \<open>b_oid\<close> is the identity of the descriptor object:
  the key under which \<open>memoized\<close> holds its views.
\<close>

record glbuffer =
  b_oid :: nat
  target :: glenum
  usage :: glenum
  buffer :: handle
  data :: "typed_array option"
  ptr :: nat
  dispose :: "gl_state \<Rightarrow> unit result"

text \<open>
  A \<open>Record<string, X>\<close> is the list of its entries in the order \<open>Object.entries\<close> and
  \<open>Object.values\<close> enumerate them. An assignment \<open>rec[name] = x\<close> replaces the value of
  an entry that exists and adds a new entry last.
\<close>

fun assign :: "(jsstring \<times> 'a) list \<Rightarrow> jsstring \<Rightarrow> 'a \<Rightarrow> (jsstring \<times> 'a) list" where
  "assign [] name x = [(name, x)]"
| "assign ((k, y) # kvs) name x = (if k = name then (k, x) # kvs else (k, y) # assign kvs name x)"

type_synonym attrib_param = "glenum \<times> attribFn \<times> glenum option"

text \<open>The body of the \<open>for ... of\<close> loop of \<open>addVertexAttribs\<close>, on the entries left.\<close>

fun addVertexAttribs_loop ::
  "gl_ctx \<Rightarrow> (jsstring \<times> attrib_param) list \<Rightarrow> (jsstring \<times> glbuffer) list \<Rightarrow> gl_state
   \<Rightarrow> (jsstring \<times> glbuffer) list result" where
  "addVertexAttribs_loop gl [] vertexAttribsBuffers s = (Inr vertexAttribsBuffers, s)"
| "addVertexAttribs_loop gl ((name, (tgt, attribFn, usage_opt)) # attribs) vertexAttribsBuffers s =
     (let usg = (case usage_opt of None \<Rightarrow> gl_STATIC_DRAW gl | Some us \<Rightarrow> us)
      in case addVertexAttrib gl tgt name attribFn (Some usg) s of
           (Inl e, s1) \<Rightarrow> (Inl e, s1)
         | (Inr va, s1) \<Rightarrow>
             (let d = \<lparr>b_oid = next_obj s1,
                       target = tgt,
                       usage = usg,
                       buffer = va_buffer va,
                       data = va_data va,
                       ptr = (case va_data va of None \<Rightarrow> 0 | Some a \<Rightarrow> byteOffset a),
                       dispose = (\<lambda>t. (Inr (), issue (GL_deleteBuffer (va_buffer va)) t))\<rparr>;
                  s2 = s1\<lparr>next_obj := Suc (next_obj s1)\<rparr>
              in addVertexAttribs_loop gl attribs (assign vertexAttribsBuffers name d) s2))"

definition addVertexAttribs ::
  "gl_ctx \<Rightarrow> (jsstring \<times> attrib_param) list \<Rightarrow> gl_state \<Rightarrow> (jsstring \<times> glbuffer) list result" where
  "addVertexAttribs gl attribs s = addVertexAttribs_loop gl attribs [] s"

text \<open>\<open>for (const attrib of Object.values(attribs)) attrib.dispose()\<close>.\<close>

fun dispose_all :: "(gl_state \<Rightarrow> unit result) list \<Rightarrow> gl_state \<Rightarrow> unit result" where
  "dispose_all [] s = (Inr (), s)"
| "dispose_all (d # ds) s = (case d s of (Inl e, s1) \<Rightarrow> (Inl e, s1) | (Inr _, s1) \<Rightarrow> dispose_all ds s1)"

definition deleteAttribs :: "(jsstring \<times> glbuffer) list \<Rightarrow> gl_state \<Rightarrow> unit result" where
  "deleteAttribs attribs s = dispose_all (map (\<lambda>(name, attrib). dispose attrib) attribs) s"

definition setBuffer :: "glbuffer \<Rightarrow> typed_array \<Rightarrow> glenum option \<Rightarrow> gl_state \<Rightarrow> gl_state" where
  "setBuffer b dat usage_opt s =
     (let s1 = issue (GL_bindBuffer (target b) (Some (buffer b))) s
      in issue (GL_bufferData (target b) dat (case usage_opt of None \<Rightarrow> usage b | Some us \<Rightarrow> us)) s1)"

definition bufferSubData :: "gl_ctx \<Rightarrow> glbuffer \<Rightarrow> typed_array \<Rightarrow> int option \<Rightarrow> gl_state \<Rightarrow> gl_state" where
  "bufferSubData gl b dat offset_opt s =
     (let offset = (case offset_opt of None \<Rightarrow> 0 | Some off \<Rightarrow> off);
          (u, s1) = useBuffer gl (target b) (buffer b) s;
          s2 = issue (GL_bufferSubData (target b) offset dat) s1
      in leave_using u s2)"

section \<open>Textures\<close>

record gltexture =
  tex_target :: glenum
  uniform :: "handle option"
  texture :: handle
  tex_dispose :: "gl_state \<Rightarrow> unit result"

definition TEXTURE_MAX_ANISOTROPY_EXT :: glenum where
  "TEXTURE_MAX_ANISOTROPY_EXT = 0x84FE"

definition texFloats :: "gl_ctx \<Rightarrow> glenum set" where
  "texFloats gl = {TEXTURE_MAX_ANISOTROPY_EXT, gl_TEXTURE_MAX_LOD gl, gl_TEXTURE_MIN_LOD gl}"

text \<open>The loop over \<open>Object.entries(params)\<close>, the keys read as numbers.\<close>

fun texParameters :: "gl_ctx \<Rightarrow> glenum \<Rightarrow> (glenum \<times> real) list \<Rightarrow> gl_state \<Rightarrow> gl_state" where
  "texParameters gl tgt [] s = s"
| "texParameters gl tgt ((name, param) # params) s =
     texParameters gl tgt params
       (issue (if name \<in> texFloats gl then GL_texParameterf tgt name param
               else GL_texParameteri tgt name param) s)"

definition createTexture ::
  "gl_ctx \<Rightarrow> glenum \<Rightarrow> handle option \<Rightarrow> (glenum \<times> real) list \<Rightarrow> gl_state \<Rightarrow> gltexture \<times> gl_state" where
  "createTexture gl tgt unif params s =
     (let (tex, s1) = create GL_createTexture s;
          s2 = issue (GL_bindTexture tgt tex) s1;
          s3 = texParameters gl tgt params s2
      in (\<lparr>tex_target = tgt, uniform = unif, texture = tex,
           tex_dispose = (\<lambda>t. (Inr (), issue (GL_deleteTexture tex) t))\<rparr>, s3))"

definition deleteTextures :: "gltexture list \<Rightarrow> gl_state \<Rightarrow> unit result" where
  "deleteTextures textures s = dispose_all (map tex_dispose textures) s"

text \<open>\<open>for (let i = 0; i < textures.length; i++)\<close>, from the index \<open>i\<close> on.\<close>

function activateTextures_loop :: "gl_ctx \<Rightarrow> gltexture list \<Rightarrow> nat \<Rightarrow> gl_state \<Rightarrow> gl_state" where
  "activateTextures_loop gl textures i s =
     (if i < length textures
      then activateTextures_loop gl textures (Suc i)
             (issue (GL_uniform1i (uniform (textures ! i)) (int i))
               (issue (GL_bindTexture (tex_target (textures ! i)) (texture (textures ! i)))
                 (issue (GL_activeTexture (gl_TEXTURE0 gl + i)) s)))
      else s)"
  by pat_completeness auto
termination
  by (relation "measure (\<lambda>(gl, textures, i, s). length textures - i)") auto

declare activateTextures_loop.simps [simp del]

definition activateTextures :: "gl_ctx \<Rightarrow> gltexture list \<Rightarrow> gl_state \<Rightarrow> gl_state" where
  "activateTextures gl textures s = activateTextures_loop gl textures 0 s"

section \<open>The attribute range write cache\<close>

record attrib_range =
  r_begin :: int
  r_end :: int
  r_count :: int

text \<open>
  \<open>x << n\<close> on a number with an integer value: the value is reduced to 32 bits, shifted
  by \<open>n mod 32\<close>, and read as a signed 32-bit integer.
\<close>

definition shl :: "int \<Rightarrow> nat \<Rightarrow> int" where
  "shl x n = sint (push_bit (n mod 32) (word_of_int x :: 32 word))"

definition PRIME :: int where
  "PRIME = 31"

text \<open>The locals \<open>begin\<close>, \<open>end\<close> and \<open>hash\<close> of \<open>getDataRange\<close>.\<close>

definition range_begin :: "attrib_range \<Rightarrow> int" where
  "range_begin r = shl (r_begin r) 2"

definition range_end :: "attrib_range \<Rightarrow> int" where
  "range_end r = shl (r_begin r) 2 + shl (r_count r) 2"

definition range_hash :: "attrib_range \<Rightarrow> int" where
  "range_hash r = range_begin r * PRIME + range_end r"

definition BYTES_PER_ELEMENT :: "typed_ctor \<Rightarrow> nat" where
  "BYTES_PER_ELEMENT c =
     (case c of
        Uint8Array \<Rightarrow> 1 | Uint16Array \<Rightarrow> 2 | Uint32Array \<Rightarrow> 4 | BigUint64Array \<Rightarrow> 8
      | Int8Array \<Rightarrow> 1 | Int16Array \<Rightarrow> 2 | Int32Array \<Rightarrow> 4 | BigInt64Array \<Rightarrow> 8
      | Float32Array \<Rightarrow> 4 | Float64Array \<Rightarrow> 8)"

text \<open>
  \<open>TypedArray.prototype.subarray(begin, end)\<close> is a built-in of the language, modelled
  from ECMAScript: a negative index counts from the end, both indices are clamped to the
  length, and the result is a new typed array object on the same buffer.
\<close>

definition subarray :: "typed_array \<Rightarrow> int \<Rightarrow> int \<Rightarrow> gl_state \<Rightarrow> typed_array \<times> gl_state" where
  "subarray a begin' end' s =
     (let srcLength = int (len a);
          beginIndex = (if begin' < 0 then max (srcLength + begin') 0 else min begin' srcLength);
          endIndex = (if end' < 0 then max (srcLength + end') 0 else min end' srcLength);
          newLength = max (endIndex - beginIndex) 0
      in (\<lparr>oid = next_obj s,
           ctor = ctor a,
           arraybuffer = arraybuffer a,
           byteOffset = byteOffset a + nat beginIndex * BYTES_PER_ELEMENT (ctor a),
           len = nat newLength\<rparr>,
          s\<lparr>next_obj := Suc (next_obj s)\<rparr>))"

text \<open>
  \<open>memoized.get(attrib)\<close>, with \<open>memoized.set(attrib, new Map)\<close> when there is none: the
  map of the descriptor and the state after.
\<close>

definition memo_of :: "glbuffer \<Rightarrow> gl_state \<Rightarrow> (int \<rightharpoonup> typed_array) \<times> gl_state" where
  "memo_of attrib s =
     (case memoized s (b_oid attrib) of
        Some mem \<Rightarrow> (mem, s)
      | None \<Rightarrow> (Map.empty, s\<lparr>memoized := (memoized s)(b_oid attrib \<mapsto> Map.empty)\<rparr>))"

text \<open>Reading \<open>attrib.data.subarray\<close> throws a \<open>TypeError\<close> when \<open>data\<close> is \<open>undefined\<close>.\<close>

definition getDataRange :: "glbuffer \<Rightarrow> attrib_range \<Rightarrow> gl_state \<Rightarrow> typed_array result" where
  "getDataRange attrib r s =
     (let begin' = range_begin r;
          end' = range_end r;
          hash = range_hash r;
          (mem, s1) = memo_of attrib s
      in case mem hash of
           Some sub \<Rightarrow> (Inr sub, s1)
         | None \<Rightarrow>
             (case data attrib of
                None \<Rightarrow> (Inl TypeError, s1)
              | Some d \<Rightarrow>
                  (let (sub, s2) = subarray d begin' end' s1
                   in (Inr sub,
                       s2\<lparr>memoized := (memoized s2)(b_oid attrib \<mapsto> mem(hash \<mapsto> sub))\<rparr>))))"

definition writeAttribRange :: "gl_ctx \<Rightarrow> glbuffer \<Rightarrow> attrib_range \<Rightarrow> gl_state \<Rightarrow> unit result" where
  "writeAttribRange gl attrib r s =
     (case getDataRange attrib r s of
        (Inl e, s1) \<Rightarrow> (Inl e, s1)
      | (Inr sub, s1) \<Rightarrow> (Inr (), bufferSubData gl attrib sub None s1))"


section \<open>Attribute set-up callbacks\<close>

definition typedCtorToGLTypeMap :: "gl_ctx \<Rightarrow> typed_ctor \<Rightarrow> glenum option" where
  "typedCtorToGLTypeMap gl c =
     (if c = Float32Array then Some (gl_FLOAT gl)
      else if c = Int32Array then Some (gl_INT gl)
      else None)"

definition intPointerTypes :: "typed_ctor set" where
  "intPointerTypes = {Int32Array}"

text \<open>The second argument of \<open>attrib\<close>: the data, or a function of the caller giving it.\<close>

datatype fn_or_data =
    Data typed_array
  | DataFn "gl_state \<Rightarrow> typed_array result"

definition attrib :: "gl_ctx \<Rightarrow> int \<Rightarrow> fn_or_data \<Rightarrow> int option \<Rightarrow> attribFn" where
  "attrib gl size' fnOrData divisor_opt = (\<lambda>index tgt usg s.
     (let divisor = (case divisor_opt of None \<Rightarrow> 0 | Some dv \<Rightarrow> dv)
      in case (case fnOrData of Data d \<Rightarrow> (Inr d, s) | DataFn f \<Rightarrow> f s) of
           (Inl e, s1) \<Rightarrow> (Inl e, s1)
         | (Inr dat, s1) \<Rightarrow>
             (let s2 = issue (GL_bufferData_size tgt (len dat * BYTES_PER_ELEMENT (ctor dat)) usg) s1;
                  s3 = issue (GL_bufferData tgt dat usg) s2;
                  s4 = (if divisor \<noteq> 0 then issue (GL_vertexAttribDivisor index divisor) s3 else s3);
                  type = typedCtorToGLTypeMap gl (ctor dat);
                  s5 = (if ctor dat \<in> intPointerTypes
                        then issue (GL_vertexAttribIPointer index size' type 0 0) s4
                        else issue (GL_vertexAttribPointer index size' type False 0 0) s4)
              in (Inr (Some dat), s5))))"

section \<open>The tracked bindings\<close>

text \<open>
  The two variables \<open>currentProgram\<close> and \<open>currentVao\<close> of a state, and what it means for
  code of the caller (a callback, a source function, a disposer) to leave them as they
  are: it calls none of the binding functions, or restores what it changed.
\<close>

definition bindings :: "gl_state \<Rightarrow> handle option \<times> handle option" where
  "bindings s = (currentProgram s, currentVao s)"

definition keeps_bindings :: "(gl_state \<Rightarrow> 'a \<times> gl_state) \<Rightarrow> bool" where
  "keeps_bindings f \<longleftrightarrow> (\<forall>s. bindings (snd (f s)) = bindings s)"

definition src_keeps_bindings :: "shader_src \<Rightarrow> bool" where
  "src_keeps_bindings src = (case src of Src str \<Rightarrow> True | SrcFn f \<Rightarrow> keeps_bindings f)"

definition data_keeps_bindings :: "fn_or_data \<Rightarrow> bool" where
  "data_keeps_bindings fd = (case fd of Data d \<Rightarrow> True | DataFn f \<Rightarrow> keeps_bindings f)"

section \<open>Example data\<close>

text \<open>
  A context with the constants of WebGL2, in which program 0 has one uniform, named
  \<open>u\<close>, at location 100, every program has one attribute, named \<open>a\<close>, at index 0, and
  the compiler rejects the empty source, with the log \<open>E\<close>.
\<close>

definition example_gl :: gl_ctx where
  "example_gl =
     \<lparr>gl_ARRAY_BUFFER = 0x8892, gl_STATIC_DRAW = 0x88E4, gl_TEXTURE0 = 0x84C0,
      gl_VERTEX_SHADER = 0x8B31, gl_FRAGMENT_SHADER = 0x8B30, gl_COMPILE_STATUS = 0x8B81,
      gl_TEXTURE_MAX_LOD = 0x813B, gl_TEXTURE_MIN_LOD = 0x813A, gl_FLOAT = 0x1406,
      gl_INT = 0x1404,
      gl_getUniformLocation = (\<lambda>p name. if p = Some 0 \<and> name = [0x75] then Some 100 else None),
      gl_getAttribLocation = (\<lambda>p name. if name = [0x61] then 0 else - 1),
      gl_compileStatus = (\<lambda>type str. str \<noteq> []),
      gl_getShaderInfoLog = (\<lambda>type str. if str = [] then [0x45] else [])\<rparr>"

text \<open>
  A \<open>Float32Array\<close> of 512 elements at byte 16 of its buffer, two attributes set up
  from it by \<open>attrib\<close>, and a buffer descriptor that holds it.
\<close>

definition example_data :: typed_array where
  "example_data = \<lparr>oid = 1000, ctor = Float32Array, arraybuffer = 1001, byteOffset = 16, len = 512\<rparr>"

definition example_attribs :: "(jsstring \<times> attrib_param) list" where
  "example_attribs =
     [([0x61], (0x8892, attrib example_gl 2 (Data example_data) None, None)),
      ([0x62], (0x8892, attrib example_gl 2 (Data example_data) None, Some 0x88E8))]"

definition example_buffer :: glbuffer where
  "example_buffer = \<lparr>b_oid = 2000, target = 0x8892, usage = 0x88E4, buffer = 2001,
      data = Some example_data, ptr = 16,
      dispose = (\<lambda>t. (Inr (), issue (GL_deleteBuffer 2001) t))\<rparr>"


text \<open>
  Two ranges with the same \<open>begin\<close> and \<open>count\<close>, and two ranges of 64 elements from 0
  and of 32 elements from 1.
\<close>

definition range_a :: attrib_range where
  "range_a = \<lparr>r_begin = 1, r_end = 3, r_count = 2\<rparr>"

definition range_a' :: attrib_range where
  "range_a' = \<lparr>r_begin = 1, r_end = 99, r_count = 2\<rparr>"

definition range_64 :: attrib_range where
  "range_64 = \<lparr>r_begin = 0, r_end = 64, r_count = 64\<rparr>"

definition range_32 :: attrib_range where
  "range_32 = \<lparr>r_begin = 1, r_end = 33, r_count = 32\<rparr>"

section \<open>Binding a program or a vertex array\<close>

text \<open>
  C8. \<open>useProgram\<close> with the program that is current returns the state as it is: no
  native call, no variable changed. With any other program it issues one
  \<open>gl.useProgram\<close> and sets \<open>currentProgram\<close> to its argument, and nothing else
  changes. The same holds of \<open>useVao\<close>, \<open>currentVao\<close> and \<open>gl.bindVertexArray\<close>.
\<close>

theorem useProgram_useVao_idempotent:
  "(currentProgram s = Some p \<longrightarrow> useProgram p s = s) \<and>
   (currentProgram s \<noteq> Some p \<longrightarrow>
      useProgram p s = s\<lparr>currentProgram := Some p, calls := calls s @ [GL_useProgram p]\<rparr>) \<and>
   (currentVao s = Some v \<longrightarrow> useVao v s = s) \<and>
   (currentVao s \<noteq> Some v \<longrightarrow>
      useVao v s = s\<lparr>currentVao := Some v, calls := calls s @ [GL_bindVertexArray v]\<rparr>)"
  by (auto simp: useProgram_def useVao_def issue_def)

theorem useProgram_useVao_idempotent_witness:
  "useProgram 7 initial = initial\<lparr>currentProgram := Some 7, calls := [GL_useProgram 7]\<rparr> \<and>
   useProgram 7 (useProgram 7 initial) = useProgram 7 initial \<and>
   useVao 3 initial = initial\<lparr>currentVao := Some 3, calls := [GL_bindVertexArray 3]\<rparr> \<and>
   useVao 3 (useVao 3 initial) = useVao 3 initial"
  using useProgram_useVao_idempotent [of initial 7 3]
    useProgram_useVao_idempotent [of "useProgram 7 initial" 7 3]
    useProgram_useVao_idempotent [of "useVao 3 initial" 7 3]
  by (simp add: initial_def)

section \<open>Missing uniforms and attributes\<close>

text \<open>
  C3. Reading a name from \<open>uniforms\<close> has no error result. When the current program has
  no location for the name, the read returns \<open>null\<close> and adds one warning, for that
  name; when it has one, the read returns that location and adds no warning. In both
  cases the only native call is the lookup.
\<close>

theorem uniforms_get_fail_soft:
  "(gl_getUniformLocation gl (currentProgram s) name = None \<longrightarrow>
      uniforms_get gl name s =
        (None, s\<lparr>calls := calls s @ [GL_getUniformLocation (currentProgram s) name],
                  warnings := warnings s @ [Uniform_not_found name]\<rparr>)) \<and>
   (\<forall>loc. gl_getUniformLocation gl (currentProgram s) name = Some loc \<longrightarrow>
      uniforms_get gl name s =
        (Some loc, s\<lparr>calls := calls s @ [GL_getUniformLocation (currentProgram s) name]\<rparr>))"
  by (simp add: uniforms_get_def issue_def warn_def)

theorem uniforms_get_fail_soft_witness:
  "uniforms_get example_gl [0x78] (useProgram 0 initial) =
     (None, \<lparr>currentProgram = Some 0, currentVao = None, memoized = Map.empty,
             calls = [GL_useProgram 0, GL_getUniformLocation (Some 0) [0x78]],
             warnings = [Uniform_not_found [0x78]], next_obj = 0\<rparr>) \<and>
   uniforms_get example_gl [0x75] (useProgram 0 initial) =
     (Some 100, \<lparr>currentProgram = Some 0, currentVao = None, memoized = Map.empty,
             calls = [GL_useProgram 0, GL_getUniformLocation (Some 0) [0x75]],
             warnings = [], next_obj = 0\<rparr>)"
  using uniforms_get_fail_soft [of example_gl "useProgram 0 initial" "[0x78]"]
    uniforms_get_fail_soft [of example_gl "useProgram 0 initial" "[0x75]"]
  by (simp add: example_gl_def initial_def useProgram_def issue_def)

text \<open>
  C6. When the lookup of an attribute name gives -1, \<open>bindVertexAttribBuffer\<close> returns
  \<open>undefined\<close> after the lookup and one warning: it issues no \<open>bindBuffer\<close>, no
  \<open>bindAttribLocation\<close> and no \<open>enableVertexAttribArray\<close>. \<open>addVertexAttrib\<close> then
  returns the buffer it created and no data, without an error; the state it leaves
  does not depend on the callback, which is not called.
\<close>

theorem missing_attribute_skipped:
  assumes "gl_getAttribLocation gl (currentProgram s) name = - 1"
  shows "bindVertexAttribBuffer gl tgt buf name s =
           (None, s\<lparr>calls := calls s @ [GL_getAttribLocation (currentProgram s) name],
                     warnings := warnings s @ [Attribute_not_found name]\<rparr>) \<and>
         addVertexAttrib gl tgt name attribFn usage_opt s =
           (Inr \<lparr>va_buffer = next_obj s, va_data = None\<rparr>,
            s\<lparr>calls := calls s @
                  [GL_createBuffer, GL_bindBuffer tgt (Some (next_obj s)),
                   GL_getAttribLocation (currentProgram s) name] @
                  (if tgt = gl_ARRAY_BUFFER gl then [GL_bindBuffer (gl_ARRAY_BUFFER gl) None] else []),
               warnings := warnings s @ [Attribute_not_found name],
               next_obj := Suc (next_obj s)\<rparr>)"
  using assms
  by (simp add: bindVertexAttribBuffer_def addVertexAttrib_def useBuffer_def bufferDisposables_def
      leave_using_def create_def issue_def warn_def Let_def)

theorem missing_attribute_skipped_witness:
  "gl_getAttribLocation example_gl (currentProgram initial) [0x62] = - 1 \<and>
   bindVertexAttribBuffer example_gl 0x8892 5 [0x62] initial =
     (None, initial\<lparr>calls := [GL_getAttribLocation None [0x62]],
                     warnings := [Attribute_not_found [0x62]]\<rparr>) \<and>
   addVertexAttrib example_gl 0x8892 [0x62] (\<lambda>i t u s. (Inl (Thrown 1), s)) None initial =
     (Inr \<lparr>va_buffer = 0, va_data = None\<rparr>,
      initial\<lparr>calls := [GL_createBuffer, GL_bindBuffer 0x8892 (Some 0),
                   GL_getAttribLocation None [0x62], GL_bindBuffer 0x8892 None],
              warnings := [Attribute_not_found [0x62]],
              next_obj := 1\<rparr>)"
  using missing_attribute_skipped [of example_gl initial "[0x62]" "0x8892" 5
      "\<lambda>i t u s. (Inl (Thrown 1), s)" None]
  by (simp add: example_gl_def initial_def)

section \<open>Activating textures\<close>

lemma activateTextures_loop_calls:
  "activateTextures_loop gl textures i s =
     s\<lparr>calls := calls s @ concat (map (\<lambda>k.
          [GL_activeTexture (gl_TEXTURE0 gl + k),
           GL_bindTexture (tex_target (textures ! k)) (texture (textures ! k)),
           GL_uniform1i (uniform (textures ! k)) (int k)]) [i..<length textures])\<rparr>"
proof (induction gl textures i s rule: activateTextures_loop.induct)
  case (1 gl textures i s)
  show ?case
  proof (cases "i < length textures")
    case True
    then show ?thesis
      using "1.IH" [OF True]
      by (subst activateTextures_loop.simps) (simp add: issue_def upt_conv_Cons)
  next
    case False
    then show ?thesis
      by (subst activateTextures_loop.simps) simp
  qed
qed

text \<open>
  C10. \<open>activateTextures\<close> changes nothing but the trace, to which it adds, for the
  indices \<open>i = 0, 1, ...\<close> of the list in this order, \<open>activeTexture(TEXTURE0 + i)\<close>,
  \<open>bindTexture\<close> of texture \<open>i\<close> to the target of texture \<open>i\<close>, and \<open>uniform1i\<close> of the
  integer \<open>i\<close> to the uniform of texture \<open>i\<close>.
\<close>

theorem activateTextures_calls:
  "activateTextures gl textures s =
     s\<lparr>calls := calls s @ concat (map (\<lambda>i.
          [GL_activeTexture (gl_TEXTURE0 gl + i),
           GL_bindTexture (tex_target (textures ! i)) (texture (textures ! i)),
           GL_uniform1i (uniform (textures ! i)) (int i)]) [0..<length textures])\<rparr>"
  by (simp add: activateTextures_def activateTextures_loop_calls)

section \<open>Shader compilation\<close>

lemma trim_append_ws:
  assumes "\<forall>c \<in> set ws1. isTrimmed c" and "\<forall>c \<in> set ws2. isTrimmed c"
  shows "trim (ws1 @ x @ ws2) = trim x"
proof -
  have 1: "dropWhile isTrimmed (ws1 @ x @ ws2) = dropWhile isTrimmed (x @ ws2)"
    using assms(1) by (simp add: dropWhile_append2)
  show ?thesis
  proof (cases "\<forall>c \<in> set x. isTrimmed c")
    case True
    then have "dropWhile isTrimmed (x @ ws2) = []" and "dropWhile isTrimmed x = []"
      using assms(2) by (simp_all add: ball_Un)
    then show ?thesis by (simp only: trim_def 1 rev.simps dropWhile.simps)
  next
    case False
    then obtain c where c: "c \<in> set x" "\<not> isTrimmed c" by blast
    then have "dropWhile isTrimmed (x @ ws2) = dropWhile isTrimmed x @ ws2"
      by simp
    moreover have "dropWhile isTrimmed (rev ws2 @ rev (dropWhile isTrimmed x)) =
        dropWhile isTrimmed (rev (dropWhile isTrimmed x))"
      using assms(2) by (intro dropWhile_append2) simp
    ultimately show ?thesis
      by (simp add: trim_def 1)
  qed
qed

lemma trim_ends:
  "trim x = [] \<or> (\<not> isTrimmed (hd (trim x)) \<and> \<not> isTrimmed (last (trim x)))"
proof (cases "trim x = []")
  case True then show ?thesis by simp
next
  case False
  let ?d = "dropWhile isTrimmed x"
  let ?r = "dropWhile isTrimmed (rev ?d)"
  have r: "?r \<noteq> []" using False by (simp add: trim_def)
  then have lastok: "\<not> isTrimmed (hd ?r)" by (simp add: hd_dropWhile)
  have d: "?d \<noteq> []"
  proof
    assume e: "?d = []"
    have "?r = []" unfolding e by simp
    with r show False by contradiction
  qed
  then have hdd: "\<not> isTrimmed (hd ?d)" by (simp add: hd_dropWhile)
  have "last (trim x) = hd ?r" using r by (simp add: trim_def last_rev)
  moreover have "hd (trim x) = last ?r" using r by (simp add: trim_def hd_rev)
  moreover have "last ?r = last (rev ?d)"
  proof -
    have "rev ?d = takeWhile isTrimmed (rev ?d) @ ?r" by simp
    then have "last (rev ?d) = last (takeWhile isTrimmed (rev ?d) @ ?r)" by simp
    also have "\<dots> = last ?r" using r by (simp only: last_append if_False)
    finally show ?thesis by simp
  qed
  moreover have "last (rev ?d) = hd ?d" using d by (simp add: last_rev)
  ultimately show ?thesis using lastok hdd by simp
qed

lemma trim_decompose:
  "\<exists>a b. x = a @ trim x @ b \<and> (\<forall>c \<in> set a. isTrimmed c) \<and> (\<forall>c \<in> set b. isTrimmed c)"
proof -
  let ?d = "dropWhile isTrimmed x"
  let ?a = "takeWhile isTrimmed x"
  let ?b = "rev (takeWhile isTrimmed (rev ?d))"
  have e: "takeWhile isTrimmed (rev ?d) @ dropWhile isTrimmed (rev ?d) = rev ?d"
    by (rule takeWhile_dropWhile_id)
  have "rev (takeWhile isTrimmed (rev ?d) @ dropWhile isTrimmed (rev ?d)) = ?d"
    by (simp only: e rev_rev_ident)
  then have "rev (dropWhile isTrimmed (rev ?d)) @ ?b = ?d"
    by (simp only: rev_append)
  then have "?d = trim x @ ?b" by (simp only: trim_def)
  moreover have "x = ?a @ ?d" by simp
  ultimately have "x = ?a @ trim x @ ?b" by simp
  moreover have "\<forall>c \<in> set ?a. isTrimmed c" by (auto dest: set_takeWhileD)
  moreover have "\<forall>c \<in> set ?b. isTrimmed c" by (auto dest: set_takeWhileD)
  ultimately show ?thesis by blast
qed

lemma createShader_text:
  assumes "src_text src (snd (create (GL_createShader type) s)) = (Inr str, s2)"
  shows "createShader gl type src s =
     (if gl_compileStatus gl type (trim str)
      then (Inr (next_obj s),
            s2\<lparr>calls := calls s2 @ [GL_shaderSource (next_obj s) (trim str),
                 GL_compileShader (next_obj s),
                 GL_getShaderParameter (next_obj s) (gl_COMPILE_STATUS gl)]\<rparr>)
      else (Inl (Error (gl_getShaderInfoLog gl type (trim str))),
            s2\<lparr>calls := calls s2 @ [GL_shaderSource (next_obj s) (trim str),
                 GL_compileShader (next_obj s),
                 GL_getShaderParameter (next_obj s) (gl_COMPILE_STATUS gl),
                 GL_getShaderInfoLog (next_obj s)]\<rparr>))"
  using assms
  by (simp add: createShader_def create_def issue_def Let_def)

lemma createShader_Src:
  "createShader gl type (Src str) s =
     (if gl_compileStatus gl type (trim str)
      then (Inr (next_obj s),
            s\<lparr>calls := calls s @ [GL_createShader type, GL_shaderSource (next_obj s) (trim str),
                 GL_compileShader (next_obj s),
                 GL_getShaderParameter (next_obj s) (gl_COMPILE_STATUS gl)],
              next_obj := Suc (next_obj s)\<rparr>)
      else (Inl (Error (gl_getShaderInfoLog gl type (trim str))),
            s\<lparr>calls := calls s @ [GL_createShader type, GL_shaderSource (next_obj s) (trim str),
                 GL_compileShader (next_obj s),
                 GL_getShaderParameter (next_obj s) (gl_COMPILE_STATUS gl),
                 GL_getShaderInfoLog (next_obj s)],
              next_obj := Suc (next_obj s)\<rparr>))"
  by (simp add: createShader_def src_text_def create_def issue_def Let_def)

text \<open>
  C4. When the source text (the string, or what the source function returned) does not
  compile, \<open>createShader\<close> throws an \<open>Error\<close> whose message is the info log of the
  compiler for that shader; when it compiles, \<open>createShader\<close> returns the shader that
  \<open>gl.createShader\<close> gave. \<open>createShaders\<close> throws what the first failing
  \<open>createShader\<close> throws, the vertex shader first, and otherwise returns the two
  handles; for two strings these are two different shaders.
\<close>

theorem shader_compile_diagnostic:
  "(\<forall>str s2. src_text src (snd (create (GL_createShader type) s)) = (Inr str, s2) \<longrightarrow>
      (\<not> gl_compileStatus gl type (trim str) \<longrightarrow>
         fst (createShader gl type src s) = Inl (Error (gl_getShaderInfoLog gl type (trim str)))) \<and>
      (gl_compileStatus gl type (trim str) \<longrightarrow>
         fst (createShader gl type src s) = Inr (next_obj s))) \<and>
   (\<forall>e s1. createShader gl (gl_VERTEX_SHADER gl) (src_vertex srcs) s = (Inl e, s1) \<longrightarrow>
      createShaders gl srcs s = (Inl e, s1)) \<and>
   (\<forall>v s1 e s2. createShader gl (gl_VERTEX_SHADER gl) (src_vertex srcs) s = (Inr v, s1) \<and>
      createShader gl (gl_FRAGMENT_SHADER gl) (src_fragment srcs) s1 = (Inl e, s2) \<longrightarrow>
      createShaders gl srcs s = (Inl e, s2)) \<and>
   (\<forall>v s1 f s2. createShader gl (gl_VERTEX_SHADER gl) (src_vertex srcs) s = (Inr v, s1) \<and>
      createShader gl (gl_FRAGMENT_SHADER gl) (src_fragment srcs) s1 = (Inr f, s2) \<longrightarrow>
      createShaders gl srcs s = (Inr \<lparr>vertex = v, fragment = f\<rparr>, s2)) \<and>
   fst (createShaders gl \<lparr>src_vertex = Src vs, src_fragment = Src fs\<rparr> s) =
     (if \<not> gl_compileStatus gl (gl_VERTEX_SHADER gl) (trim vs)
      then Inl (Error (gl_getShaderInfoLog gl (gl_VERTEX_SHADER gl) (trim vs)))
      else if \<not> gl_compileStatus gl (gl_FRAGMENT_SHADER gl) (trim fs)
      then Inl (Error (gl_getShaderInfoLog gl (gl_FRAGMENT_SHADER gl) (trim fs)))
      else Inr \<lparr>vertex = next_obj s, fragment = Suc (next_obj s)\<rparr>)"
proof -
  have a: "\<forall>str s2. src_text src (snd (create (GL_createShader type) s)) = (Inr str, s2) \<longrightarrow>
      (\<not> gl_compileStatus gl type (trim str) \<longrightarrow>
         fst (createShader gl type src s) = Inl (Error (gl_getShaderInfoLog gl type (trim str)))) \<and>
      (gl_compileStatus gl type (trim str) \<longrightarrow>
         fst (createShader gl type src s) = Inr (next_obj s))"
    by (simp add: createShader_text)
  have b: "\<forall>e s1. createShader gl (gl_VERTEX_SHADER gl) (src_vertex srcs) s = (Inl e, s1) \<longrightarrow>
      createShaders gl srcs s = (Inl e, s1)"
    by (simp add: createShaders_def)
  have c: "\<forall>v s1 e s2. createShader gl (gl_VERTEX_SHADER gl) (src_vertex srcs) s = (Inr v, s1) \<and>
      createShader gl (gl_FRAGMENT_SHADER gl) (src_fragment srcs) s1 = (Inl e, s2) \<longrightarrow>
      createShaders gl srcs s = (Inl e, s2)"
    by (simp add: createShaders_def)
  have d: "\<forall>v s1 f s2. createShader gl (gl_VERTEX_SHADER gl) (src_vertex srcs) s = (Inr v, s1) \<and>
      createShader gl (gl_FRAGMENT_SHADER gl) (src_fragment srcs) s1 = (Inr f, s2) \<longrightarrow>
      createShaders gl srcs s = (Inr \<lparr>vertex = v, fragment = f\<rparr>, s2)"
    by (simp add: createShaders_def)
  have e: "fst (createShaders gl \<lparr>src_vertex = Src vs, src_fragment = Src fs\<rparr> s) =
     (if \<not> gl_compileStatus gl (gl_VERTEX_SHADER gl) (trim vs)
      then Inl (Error (gl_getShaderInfoLog gl (gl_VERTEX_SHADER gl) (trim vs)))
      else if \<not> gl_compileStatus gl (gl_FRAGMENT_SHADER gl) (trim fs)
      then Inl (Error (gl_getShaderInfoLog gl (gl_FRAGMENT_SHADER gl) (trim fs)))
      else Inr \<lparr>vertex = next_obj s, fragment = Suc (next_obj s)\<rparr>)"
    by (simp add: createShaders_def createShader_Src)
  from a b c d e show ?thesis by blast
qed

theorem shader_compile_diagnostic_witness:
  "fst (createShader example_gl 0x8B31 (Src [0x20, 0x0A]) initial) = Inl (Error [0x45]) \<and>
   fst (createShader example_gl 0x8B31 (Src [0x20, 0x61]) initial) = Inr 0 \<and>
   fst (createShaders example_gl \<lparr>src_vertex = Src [0x61], src_fragment = Src [0x62, 0x0A]\<rparr> initial) =
     Inr \<lparr>vertex = 0, fragment = 1\<rparr> \<and>
   fst (createShaders example_gl \<lparr>src_vertex = Src [0x61], src_fragment = Src [0x0A]\<rparr> initial) =
     Inl (Error [0x45])"
  using shader_compile_diagnostic [of "Src [0x20, 0x0A]" "0x8B31" initial example_gl
      "\<lparr>src_vertex = Src [0x61], src_fragment = Src [0x62, 0x0A]\<rparr>" "[0x61]" "[0x62, 0x0A]"]
    shader_compile_diagnostic [of "Src [0x20, 0x61]" "0x8B31" initial example_gl
      "\<lparr>src_vertex = Src [0x61], src_fragment = Src [0x0A]\<rparr>" "[0x61]" "[0x0A]"]
  by (simp add: example_gl_def initial_def src_text_def create_def trim_def isTrimmed_def
      isWhiteSpace_def isLineTerminator_def)

text \<open>
  C9. The string handed to \<open>gl.shaderSource\<close> is the trimmed source text, also when the
  text comes from a source function. The trimmed text neither starts nor ends with a
  white space or line terminator, and differs from the text by such characters at both
  ends only. So a source wrapped in white space is compiled as the source itself: the
  two calls of \<open>createShader\<close> return the same result and state.
\<close>

theorem createShader_trims:
  assumes "\<forall>c \<in> set ws1. isTrimmed c" and "\<forall>c \<in> set ws2. isTrimmed c"
  shows "createShader gl type (Src (ws1 @ str @ ws2)) s = createShader gl type (Src str) s \<and>
         calls (snd (createShader gl type (Src (ws1 @ str @ ws2)) s)) =
           calls s @ [GL_createShader type, GL_shaderSource (next_obj s) (trim str),
                      GL_compileShader (next_obj s),
                      GL_getShaderParameter (next_obj s) (gl_COMPILE_STATUS gl)] @
                     (if gl_compileStatus gl type (trim str) then []
                      else [GL_getShaderInfoLog (next_obj s)]) \<and>
         (\<forall>f text s2. f (snd (create (GL_createShader type) s)) = (Inr text, s2) \<longrightarrow>
            calls (snd (createShader gl type (SrcFn f) s)) =
              calls s2 @ [GL_shaderSource (next_obj s) (trim text), GL_compileShader (next_obj s),
                          GL_getShaderParameter (next_obj s) (gl_COMPILE_STATUS gl)] @
                         (if gl_compileStatus gl type (trim text) then []
                          else [GL_getShaderInfoLog (next_obj s)])) \<and>
         (trim str = [] \<or> (\<not> isTrimmed (hd (trim str)) \<and> \<not> isTrimmed (last (trim str)))) \<and>
         (\<exists>a b. str = a @ trim str @ b \<and> (\<forall>c \<in> set a. isTrimmed c) \<and> (\<forall>c \<in> set b. isTrimmed c))"
proof -
  have 3: "\<forall>f text s2. f (snd (create (GL_createShader type) s)) = (Inr text, s2) \<longrightarrow>
            calls (snd (createShader gl type (SrcFn f) s)) =
              calls s2 @ [GL_shaderSource (next_obj s) (trim text), GL_compileShader (next_obj s),
                          GL_getShaderParameter (next_obj s) (gl_COMPILE_STATUS gl)] @
                         (if gl_compileStatus gl type (trim text) then []
                          else [GL_getShaderInfoLog (next_obj s)])"
    by (simp add: createShader_text src_text_def)
  have t: "trim (ws1 @ str @ ws2) = trim str"
    using assms by (rule trim_append_ws)
  have 1: "createShader gl type (Src (ws1 @ str @ ws2)) s = createShader gl type (Src str) s"
    by (simp only: createShader_Src t)
  have 2: "calls (snd (createShader gl type (Src (ws1 @ str @ ws2)) s)) =
           calls s @ [GL_createShader type, GL_shaderSource (next_obj s) (trim str),
                      GL_compileShader (next_obj s),
                      GL_getShaderParameter (next_obj s) (gl_COMPILE_STATUS gl)] @
                     (if gl_compileStatus gl type (trim str) then []
                      else [GL_getShaderInfoLog (next_obj s)])"
    by (simp add: createShader_Src t)
  from 1 2 3 trim_ends [of str] trim_decompose [of str] show ?thesis by blast
qed


theorem createShader_trims_witness:
  "isTrimmed 0x20 \<and> isTrimmed 0x0A \<and> isTrimmed 0x0D \<and> isTrimmed 0x09 \<and>
   createShader example_gl 0x8B31 (Src ([0x20, 0x0A] @ [0x61, 0x20, 0x62] @ [0x0D, 0x09])) initial =
     createShader example_gl 0x8B31 (Src [0x61, 0x20, 0x62]) initial \<and>
   calls (snd (createShader example_gl 0x8B31 (Src ([0x20, 0x0A] @ [0x61, 0x20, 0x62] @ [0x0D, 0x09])) initial)) =
     [GL_createShader 0x8B31, GL_shaderSource 0 [0x61, 0x20, 0x62], GL_compileShader 0,
      GL_getShaderParameter 0 0x8B81]"
proof -
  have a: "\<forall>c \<in> set [0x20, 0x0A :: 16 word]. isTrimmed c"
    by (simp add: isTrimmed_def isWhiteSpace_def isLineTerminator_def)
  have b: "\<forall>c \<in> set [0x0D, 0x09 :: 16 word]. isTrimmed c"
    by (simp add: isTrimmed_def isWhiteSpace_def isLineTerminator_def)
  have t: "trim [0x61, 0x20, 0x62] = [0x61, 0x20, 0x62]"
    by (simp add: trim_def isTrimmed_def isWhiteSpace_def isLineTerminator_def)
  note th = createShader_trims [OF a b, of example_gl "0x8B31" "[0x61, 0x20, 0x62]" initial]
  have c: "gl_compileStatus example_gl 0x8B31 [0x61, 0x20, 0x62]"
    and d: "gl_COMPILE_STATUS example_gl = 0x8B81"
    and e: "next_obj initial = 0" and f: "calls initial = []"
    by (simp_all add: example_gl_def initial_def)
  have "calls (snd (createShader example_gl 0x8B31 (Src ([0x20, 0x0A] @ [0x61, 0x20, 0x62] @ [0x0D, 0x09])) initial)) =
     [GL_createShader 0x8B31, GL_shaderSource 0 [0x61, 0x20, 0x62], GL_compileShader 0,
      GL_getShaderParameter 0 0x8B81]"
    using th [THEN conjunct2, THEN conjunct1] by (simp only: t c d e f if_True append_Nil append_Nil2)
  moreover have "isTrimmed 0x20 \<and> isTrimmed 0x0A \<and> isTrimmed 0x0D \<and> isTrimmed 0x09"
    by (simp add: isTrimmed_def isWhiteSpace_def isLineTerminator_def)
  ultimately show ?thesis using th [THEN conjunct1] by (intro conjI) simp_all
qed

section \<open>Disposal\<close>

lemma assign_set: "set (assign kvs name x) \<subseteq> insert (name, x) (set kvs)"
  by (induction kvs name x rule: assign.induct) auto

lemma addVertexAttrib_buffer:
  "addVertexAttrib gl tgt name attribFn usage_opt s = (Inr va, s1) \<Longrightarrow> va_buffer va = next_obj s"
  by (auto simp: addVertexAttrib_def create_def useBuffer_def Let_def
      split: prod.splits option.splits sum.splits)

lemma addVertexAttribs_loop_dispose:
  assumes "addVertexAttribs_loop gl attribs acc s = (Inr bufs, s')"
    and "\<forall>(name, d) \<in> set acc. dispose d = (\<lambda>t. (Inr (), issue (GL_deleteBuffer (buffer d)) t))"
  shows "\<forall>(name, d) \<in> set bufs. dispose d = (\<lambda>t. (Inr (), issue (GL_deleteBuffer (buffer d)) t))"
  using assms
proof (induction gl attribs acc s rule: addVertexAttribs_loop.induct)
  case (1 gl acc s)
  then show ?case by simp
next
  case (2 gl name tgt attribFn usage_opt attribs acc s)
  let ?usg = "case usage_opt of None \<Rightarrow> gl_STATIC_DRAW gl | Some us \<Rightarrow> us"
  obtain r s1 where r: "addVertexAttrib gl tgt name attribFn (Some ?usg) s = (r, s1)"
    by (cases "addVertexAttrib gl tgt name attribFn (Some ?usg) s")
  show ?case
  proof (cases r)
    case (Inl e)
    with r "2.prems"(1) show ?thesis by simp
  next
    case (Inr va)
    let ?d = "\<lparr>b_oid = next_obj s1, target = tgt, usage = ?usg, buffer = va_buffer va,
               data = va_data va,
               ptr = (case va_data va of None \<Rightarrow> 0 | Some a \<Rightarrow> byteOffset a),
               dispose = (\<lambda>t. (Inr (), issue (GL_deleteBuffer (va_buffer va)) t))\<rparr>"
    have step: "addVertexAttribs_loop gl attribs (assign acc name ?d)
                 (s1\<lparr>next_obj := Suc (next_obj s1)\<rparr>) = (Inr bufs, s')"
      using "2.prems"(1) r Inr by (simp add: Let_def)
    have inv: "\<forall>(name, d) \<in> set (assign acc name ?d).
                 dispose d = (\<lambda>t. (Inr (), issue (GL_deleteBuffer (buffer d)) t))"
      using "2.prems"(2) assign_set [of acc name ?d] by auto
    show ?thesis
      using "2.IH" [OF refl r [symmetric] Inr refl refl step inv] .
  qed
qed

lemma dispose_all_issue:
  "dispose_all (map (\<lambda>x t. (Inr (), issue (c x) t)) xs) s =
     (Inr (), s\<lparr>calls := calls s @ map c xs\<rparr>)"
  by (induction xs arbitrary: s) (simp_all add: issue_def)


lemma createTexture_dispose:
  "tex_dispose (fst (createTexture gl tgt unif params s)) =
     (\<lambda>t. (Inr (), issue (GL_deleteTexture (texture (fst (createTexture gl tgt unif params s)))) t))"
  by (simp add: createTexture_def create_def Let_def)

lemma example_addVertexAttribs:
  "\<exists>bufs s'. addVertexAttribs example_gl example_attribs initial = (Inr bufs, s') \<and>
      map (\<lambda>(name, d). (name, buffer d)) bufs = [([0x61], 0), ([0x62], 2)]"
  by (simp add: addVertexAttribs_def example_attribs_def addVertexAttrib_def attrib_def
      bindVertexAttribBuffer_def useBuffer_def bufferDisposables_def leave_using_def create_def
      issue_def warn_def Let_def example_gl_def initial_def example_data_def
      typedCtorToGLTypeMap_def intPointerTypes_def)


text \<open>
  C5. The \<open>dispose\<close> of every descriptor that \<open>addVertexAttribs\<close> returns adds one
  call to the trace, \<open>deleteBuffer\<close> of the buffer of the descriptor, and changes nothing
  else; \<open>deleteAttribs\<close> on these descriptors adds one \<open>deleteBuffer\<close> per descriptor,
  in their order. The same holds of the \<open>dispose\<close> of a texture descriptor made by
  \<open>createTexture\<close>, of \<open>deleteTexture\<close>, and of \<open>deleteTextures\<close> on a list of such
  descriptors.
\<close>

theorem dispose_releases_once:
  "(\<forall>bufs s'. addVertexAttribs gl attribs s = (Inr bufs, s') \<longrightarrow>
      (\<forall>(name, d) \<in> set bufs. \<forall>t.
          dispose d t = (Inr (), t\<lparr>calls := calls t @ [GL_deleteBuffer (buffer d)]\<rparr>)) \<and>
      (\<forall>t. deleteAttribs bufs t =
          (Inr (), t\<lparr>calls := calls t @ map (\<lambda>(name, d). GL_deleteBuffer (buffer d)) bufs\<rparr>))) \<and>
   (\<forall>t. tex_dispose (fst (createTexture gl tgt unif params s)) t =
      (Inr (), t\<lparr>calls := calls t @
         [GL_deleteTexture (texture (fst (createTexture gl tgt unif params s)))]\<rparr>)) \<and>
   ((\<forall>x \<in> set textures. \<exists>tgt' unif' params' s0. x = fst (createTexture gl tgt' unif' params' s0)) \<longrightarrow>
      (\<forall>t. deleteTextures textures t =
         (Inr (), t\<lparr>calls := calls t @ map (\<lambda>x. GL_deleteTexture (texture x)) textures\<rparr>)))"
proof (intro conjI allI impI)
  fix bufs s'
  assume a: "addVertexAttribs gl attribs s = (Inr bufs, s')"
  have inv: "\<forall>(name, d) \<in> set bufs. dispose d = (\<lambda>t. (Inr (), issue (GL_deleteBuffer (buffer d)) t))"
    using addVertexAttribs_loop_dispose [of gl attribs "[]" s bufs s'] a
    by (simp add: addVertexAttribs_def)
  then show "\<forall>(name, d) \<in> set bufs. \<forall>t.
          dispose d t = (Inr (), t\<lparr>calls := calls t @ [GL_deleteBuffer (buffer d)]\<rparr>)"
    by (auto simp: issue_def)
  fix t
  have "map (\<lambda>(name, attrib). dispose attrib) bufs =
        map (\<lambda>x t. (Inr (), issue (case x of (name, d) \<Rightarrow> GL_deleteBuffer (buffer d)) t)) bufs"
    using inv by (intro map_cong refl) auto
  then show "deleteAttribs bufs t =
          (Inr (), t\<lparr>calls := calls t @ map (\<lambda>(name, d). GL_deleteBuffer (buffer d)) bufs\<rparr>)"
    by (simp only: deleteAttribs_def dispose_all_issue)
next
  fix t
  show "tex_dispose (fst (createTexture gl tgt unif params s)) t =
      (Inr (), t\<lparr>calls := calls t @
         [GL_deleteTexture (texture (fst (createTexture gl tgt unif params s)))]\<rparr>)"
    by (subst createTexture_dispose) (simp add: issue_def)
next
  fix t
  assume m: "\<forall>x \<in> set textures. \<exists>tgt' unif' params' s0. x = fst (createTexture gl tgt' unif' params' s0)"
  have "\<forall>x \<in> set textures. tex_dispose x = (\<lambda>t. (Inr (), issue (GL_deleteTexture (texture x)) t))"
  proof
    fix x assume "x \<in> set textures"
    with m obtain tgt' unif' params' s0 where "x = fst (createTexture gl tgt' unif' params' s0)"
      by blast
    then show "tex_dispose x = (\<lambda>t. (Inr (), issue (GL_deleteTexture (texture x)) t))"
      by (simp only: createTexture_dispose)
  qed
  then have "map tex_dispose textures =
        map (\<lambda>x t. (Inr (), issue (GL_deleteTexture (texture x)) t)) textures"
    by (intro map_cong refl) auto
  then show "deleteTextures textures t =
         (Inr (), t\<lparr>calls := calls t @ map (\<lambda>x. GL_deleteTexture (texture x)) textures\<rparr>)"
    by (simp only: deleteTextures_def dispose_all_issue)
qed

theorem dispose_releases_once_witness:
  "\<exists>bufs s'. addVertexAttribs example_gl example_attribs initial = (Inr bufs, s') \<and>
      map (\<lambda>(name, d). (name, buffer d)) bufs = [([0x61], 0), ([0x62], 2)] \<and>
      deleteAttribs bufs initial =
        (Inr (), initial\<lparr>calls := [GL_deleteBuffer 0, GL_deleteBuffer 2]\<rparr>) \<and>
      deleteTextures [fst (createTexture example_gl 0x0DE1 (Some 100) [(0x813B, 2)] initial)] initial =
        (Inr (), initial\<lparr>calls := [GL_deleteTexture 0]\<rparr>)"
proof -
  obtain bufs s' where a: "addVertexAttribs example_gl example_attribs initial = (Inr bufs, s')"
    and b: "map (\<lambda>(name, d). (name, buffer d)) bufs = [([0x61], 0), ([0x62], 2)]"
    using example_addVertexAttribs by (elim exE conjE)
  let ?tex = "fst (createTexture example_gl 0x0DE1 (Some 100) [(0x813B, 2)] initial)"
  note th = dispose_releases_once [of example_gl example_attribs initial "0x0DE1" "Some 100"
      "[(0x813B, 2)]" "[?tex]"]
  have "map (\<lambda>(name, d). GL_deleteBuffer (buffer d)) bufs =
        map (\<lambda>(name, h). GL_deleteBuffer h) (map (\<lambda>(name, d). (name, buffer d)) bufs)"
    by (simp add: case_prod_beta comp_def)
  then have c: "map (\<lambda>(name, d). GL_deleteBuffer (buffer d)) bufs = [GL_deleteBuffer 0, GL_deleteBuffer 2]"
    by (simp only: b) simp
  have "deleteAttribs bufs initial =
      (Inr (), initial\<lparr>calls := calls initial @ map (\<lambda>(name, d). GL_deleteBuffer (buffer d)) bufs\<rparr>)"
    using th a by blast
  then have d: "deleteAttribs bufs initial =
        (Inr (), initial\<lparr>calls := [GL_deleteBuffer 0, GL_deleteBuffer 2]\<rparr>)"
    by (simp only: c) (simp add: initial_def)
  have "\<exists>tgt' unif' params' s0. ?tex = fst (createTexture example_gl tgt' unif' params' s0)"
    by (intro exI) (rule refl)
  then have m: "\<forall>x \<in> set [?tex]. \<exists>tgt' unif' params' s0.
      x = fst (createTexture example_gl tgt' unif' params' s0)"
    by (simp only: list.set ball_simps simp_thms)
  have "deleteTextures [?tex] initial =
      (Inr (), initial\<lparr>calls := calls initial @ map (\<lambda>x. GL_deleteTexture (texture x)) [?tex]\<rparr>)"
    using th [THEN conjunct2, THEN conjunct2] m by blast
  moreover have "texture ?tex = 0"
    by (simp add: createTexture_def create_def Let_def initial_def)
  ultimately have e: "deleteTextures [?tex] initial = (Inr (), initial\<lparr>calls := [GL_deleteTexture 0]\<rparr>)"
    by (simp add: initial_def)
  show ?thesis
    by (rule exI [of _ bufs], rule exI [of _ s']) (simp only: a b d e simp_thms)
qed

section \<open>The cache of range views\<close>

lemma getDataRange_hit:
  assumes "memoized s (b_oid a) = Some m" and "m (range_hash r) = Some sub"
  shows "getDataRange a r s = (Inr sub, s)"
  using assms by (simp add: getDataRange_def memo_of_def Let_def)

lemma getDataRange_miss:
  assumes "mem = (case memoized s (b_oid a) of None \<Rightarrow> Map.empty | Some m \<Rightarrow> m)"
    and "mem (range_hash r) = None"
  shows "getDataRange a r s =
     (case data a of
        None \<Rightarrow> (Inl TypeError,
                  case memoized s (b_oid a) of
                    None \<Rightarrow> s\<lparr>memoized := (memoized s)(b_oid a \<mapsto> Map.empty)\<rparr>
                  | Some m \<Rightarrow> s)
      | Some d \<Rightarrow>
          (let sub = fst (subarray d (range_begin r) (range_end r) s)
           in (Inr sub,
               s\<lparr>memoized := (memoized s)(b_oid a \<mapsto> mem(range_hash r \<mapsto> sub)),
                  next_obj := Suc (next_obj s)\<rparr>)))"
proof (cases "memoized s (b_oid a)")
  case None
  with assms show ?thesis
    by (cases "data a") (simp_all add: getDataRange_def memo_of_def subarray_def Let_def)
next
  case (Some m)
  with assms show ?thesis
    by (cases "data a") (simp_all add: getDataRange_def memo_of_def subarray_def Let_def)
qed


lemma getDataRange_cases:
  obtains (hit) m sub where "memoized s (b_oid a) = Some m" "m (range_hash r) = Some sub"
      "getDataRange a r s = (Inr sub, s)"
  | (throws) "data a = None" "fst (getDataRange a r s) = Inl TypeError"
      "\<forall>k. k \<noteq> b_oid a \<longrightarrow> memoized (snd (getDataRange a r s)) k = memoized s k"
      "calls (snd (getDataRange a r s)) = calls s"
      "currentProgram (snd (getDataRange a r s)) = currentProgram s"
      "currentVao (snd (getDataRange a r s)) = currentVao s"
  | (miss) d mem sub where "data a = Some d"
      "mem = (case memoized s (b_oid a) of None \<Rightarrow> Map.empty | Some m \<Rightarrow> m)"
      "mem (range_hash r) = None"
      "sub = fst (subarray d (range_begin r) (range_end r) s)"
      "getDataRange a r s =
         (Inr sub, s\<lparr>memoized := (memoized s)(b_oid a \<mapsto> mem(range_hash r \<mapsto> sub)),
                      next_obj := Suc (next_obj s)\<rparr>)"
proof -
  define mem where "mem = (case memoized s (b_oid a) of None \<Rightarrow> Map.empty | Some m \<Rightarrow> m)"
  show thesis
  proof (cases "mem (range_hash r)")
    case (Some sub)
    then obtain m where m: "memoized s (b_oid a) = Some m" "m (range_hash r) = Some sub"
      by (cases "memoized s (b_oid a)") (simp_all add: mem_def)
    then show thesis using hit getDataRange_hit by blast
  next
    case None
    note eq = getDataRange_miss [OF mem_def None]
    show thesis
    proof (cases "data a")
      case dn: None
      have "fst (getDataRange a r s) = Inl TypeError" using dn by (simp add: eq)
      moreover have "\<forall>k. k \<noteq> b_oid a \<longrightarrow> memoized (snd (getDataRange a r s)) k = memoized s k"
        using dn by (simp add: eq split: option.splits)
      moreover have "calls (snd (getDataRange a r s)) = calls s"
        using dn by (simp add: eq split: option.splits)
      moreover have "currentProgram (snd (getDataRange a r s)) = currentProgram s"
        using dn by (simp add: eq split: option.splits)
      moreover have "currentVao (snd (getDataRange a r s)) = currentVao s"
        using dn by (simp add: eq split: option.splits)
      ultimately show thesis using throws dn by blast
    next
      case (Some d)
      then have "getDataRange a r s =
         (Inr (fst (subarray d (range_begin r) (range_end r) s)),
          s\<lparr>memoized := (memoized s)(b_oid a \<mapsto>
                 mem(range_hash r \<mapsto> fst (subarray d (range_begin r) (range_end r) s))),
            next_obj := Suc (next_obj s)\<rparr>)"
        by (simp add: eq Let_def)
      then show thesis using miss [OF Some mem_def None refl] by blast
    qed
  qed
qed

lemma getDataRange_again:
  assumes "getDataRange a r s = (Inr sub, s1)"
    and "b_oid b = b_oid a"
    and "range_hash r' = range_hash r"
  shows "getDataRange b r' s1 = (Inr sub, s1)"
proof (cases rule: getDataRange_cases [of s a r])
  case (hit m sub')
  from assms(1) hit(3) have "sub = sub'" and "s1 = s" by simp_all
  with hit(1,2) assms(2,3) show ?thesis by (simp add: getDataRange_hit)
next
  case throws
  with assms(1) show ?thesis by simp
next
  case (miss d mem sub')
  from assms(1) miss(5) have e: "sub' = sub" by simp
  from assms(1) miss(5)
  have s1: "s1 = s\<lparr>memoized := (memoized s)(b_oid a \<mapsto> mem(range_hash r \<mapsto> sub)),
            next_obj := Suc (next_obj s)\<rparr>"
    unfolding e by (metis prod.inject)
  have "memoized s1 (b_oid b) = Some (mem(range_hash r \<mapsto> sub))"
    by (simp add: s1 assms(2))
  moreover have "(mem(range_hash r \<mapsto> sub)) (range_hash r') = Some sub"
    by (simp add: assms(3))
  ultimately show ?thesis by (rule getDataRange_hit)
qed


lemma getDataRange_frame:
  "(\<forall>k. k \<noteq> b_oid a \<longrightarrow> memoized (snd (getDataRange a r s)) k = memoized s k) \<and>
   calls (snd (getDataRange a r s)) = calls s \<and>
   currentProgram (snd (getDataRange a r s)) = currentProgram s \<and>
   currentVao (snd (getDataRange a r s)) = currentVao s"
proof (cases rule: getDataRange_cases [of s a r])
  case (hit m sub)
  then show ?thesis by simp
next
  case throws
  then show ?thesis by simp
next
  case (miss d mem sub)
  then show ?thesis by simp
qed




lemma range_examples:
  "range_begin range_a = 4" "range_end range_a = 12" "range_hash range_a = 136"
  "range_begin range_a' = 4" "range_end range_a' = 12"
  "range_begin range_64 = 0" "range_end range_64 = 256" "range_hash range_64 = 256"
  "range_begin range_32 = 4" "range_end range_32 = 132" "range_hash range_32 = 256"
  by (simp_all add: range_begin_def range_end_def range_hash_def PRIME_def shl_def
      range_a_def range_a'_def range_64_def range_32_def)












text \<open>
  C2. The key \<open>begin * 31 + end\<close> is not injective on the bounds. The range of 64
  elements from 0 has the bounds (0, 256) and the range of 32 elements from 1 has the
  bounds (4, 132); both have the key 256. After a read of the first range on a
  descriptor, a read of the second returns the view of the first (256 elements at
  byte offset 16), where a read of the second alone gives 128 elements at byte
  offset 32.
\<close>

theorem range_hash_collision:
  "range_begin range_64 = 0 \<and> range_end range_64 = 256 \<and>
   range_begin range_32 = 4 \<and> range_end range_32 = 132 \<and>
   range_hash range_64 = range_hash range_32 \<and>
   (\<exists>v1 s1. getDataRange example_buffer range_64 initial = (Inr v1, s1) \<and>
      byteOffset v1 = 16 \<and> len v1 = 256 \<and>
      getDataRange example_buffer range_32 s1 = (Inr v1, s1)) \<and>
   (\<exists>v2 s2. getDataRange example_buffer range_32 initial = (Inr v2, s2) \<and>
      byteOffset v2 = 32 \<and> len v2 = 128)"
proof -
  let ?v1 = "\<lparr>oid = 0, ctor = Float32Array, arraybuffer = 1001, byteOffset = 16, len = 256\<rparr>"
  let ?s1 = "initial\<lparr>memoized := [2000 \<mapsto> [256 \<mapsto> ?v1]], next_obj := 1\<rparr>"
  have a: "getDataRange example_buffer range_64 initial = (Inr ?v1, ?s1)"
    by (simp add: getDataRange_def memo_of_def subarray_def Let_def example_buffer_def
        example_data_def initial_def range_examples BYTES_PER_ELEMENT_def)
  have b: "getDataRange example_buffer range_32 ?s1 = (Inr ?v1, ?s1)"
    by (simp add: getDataRange_def memo_of_def Let_def example_buffer_def range_examples)
  have c: "\<exists>v2 s2. getDataRange example_buffer range_32 initial = (Inr v2, s2) \<and>
      byteOffset v2 = 32 \<and> len v2 = 128"
    by (simp add: getDataRange_def memo_of_def subarray_def Let_def example_buffer_def
        example_data_def initial_def range_examples BYTES_PER_ELEMENT_def)
  have "\<exists>v1 s1. getDataRange example_buffer range_64 initial = (Inr v1, s1) \<and>
      byteOffset v1 = 16 \<and> len v1 = 256 \<and>
      getDataRange example_buffer range_32 s1 = (Inr v1, s1)"
    using a b by (intro exI [of _ ?v1] exI [of _ ?s1]) simp
  with c show ?thesis by (simp add: range_examples)
qed

section \<open>Which functions change the bindings\<close>

lemma bindings_simps [simp]:
  "bindings (issue c s) = bindings s"
  "bindings (warn w s) = bindings s"
  "bindings (snd (create c s)) = bindings s"
  "bindings (s\<lparr>calls := cs\<rparr>) = bindings s"
  "bindings (s\<lparr>next_obj := n\<rparr>) = bindings s"
  "bindings (s\<lparr>memoized := m\<rparr>) = bindings s"
  by (simp_all add: bindings_def issue_def warn_def create_def)

lemma bindings_leave_using [simp]:
  "bindings (leave_using (bufferDisposables gl tgt) s) = bindings s"
  by (simp add: leave_using_def bufferDisposables_def)

lemma bindings_uniforms_get: "bindings (snd (uniforms_get gl name s)) = bindings s"
  by (simp add: uniforms_get_def Let_def)

lemma bindings_deleteShaders: "bindings (deleteShaders sh s) = bindings s"
  by (simp add: deleteShaders_def)

lemma bindings_setBuffer: "bindings (setBuffer b dat u s) = bindings s"
  by (simp add: setBuffer_def Let_def)

lemma bindings_bufferSubData: "bindings (bufferSubData gl b dat off s) = bindings s"
  by (simp add: bufferSubData_def useBuffer_def Let_def)

lemma bindings_useBuffer:
  "bindings (snd (useBuffer gl tgt buf s)) = bindings s"
  "fst (useBuffer gl tgt buf s) = Some d \<Longrightarrow> bindings (d t) = bindings t"
  by (auto simp: useBuffer_def bufferDisposables_def split: if_splits)

lemma bindings_useArrayBuffer:
  "bindings (snd (useArrayBuffer gl buf s)) = bindings s"
  "fst (useArrayBuffer gl buf s) = Some d \<Longrightarrow> bindings (d t) = bindings t"
  by (auto simp: useArrayBuffer_def bufferDisposables_def split: if_splits)

lemma bindings_createVertexArray: "bindings (snd (createVertexArray s)) = bindings s"
  by (simp add: createVertexArray_def create_def bindings_def issue_def)

lemma bindings_bindVertexAttribBuffer:
  "bindings (snd (bindVertexAttribBuffer gl tgt buf name s)) = bindings s"
  by (simp add: bindVertexAttribBuffer_def Let_def)

lemma bindings_texParameters: "bindings (texParameters gl tgt params s) = bindings s"
  by (induction gl tgt params s rule: texParameters.induct) simp_all

lemma bindings_createTexture: "bindings (snd (createTexture gl tgt unif params s)) = bindings s"
  by (simp add: createTexture_def create_def Let_def bindings_texParameters)


lemma bindings_activateTextures: "bindings (activateTextures gl textures s) = bindings s"
  by (simp add: activateTextures_def activateTextures_loop_calls)

lemma createShader_src_throws:
  assumes "src_text src (snd (create (GL_createShader type) s)) = (Inl e, s2)"
  shows "createShader gl type src s = (Inl e, s2)"
  using assms by (simp add: createShader_def create_def Let_def)

lemma bindings_createShader:
  assumes "src_keeps_bindings src"
  shows "bindings (snd (createShader gl type src s)) = bindings s"
proof (cases src)
  case (Src str)
  then show ?thesis by (simp add: createShader_Src)
next
  case (SrcFn f)
  with assms have k: "\<And>t. bindings (snd (f t)) = bindings t"
    by (simp add: src_keeps_bindings_def keeps_bindings_def)
  obtain r s2 where f: "f (snd (create (GL_createShader type) s)) = (r, s2)"
    by (cases "f (snd (create (GL_createShader type) s))")
  have s2: "bindings s2 = bindings s"
    using k [of "snd (create (GL_createShader type) s)"] f by simp
  show ?thesis
  proof (cases r)
    case (Inl e)
    with f SrcFn have "src_text src (snd (create (GL_createShader type) s)) = (Inl e, s2)"
      by (simp add: src_text_def)
    then show ?thesis using s2 by (simp add: createShader_src_throws)
  next
    case (Inr str)
    with f SrcFn have "src_text src (snd (create (GL_createShader type) s)) = (Inr str, s2)"
      by (simp add: src_text_def)
    then show ?thesis using s2 by (simp add: createShader_text)
  qed
qed

lemma bindings_createShaders:
  assumes "src_keeps_bindings (src_vertex srcs)" and "src_keeps_bindings (src_fragment srcs)"
  shows "bindings (snd (createShaders gl srcs s)) = bindings s"
proof -
  obtain rv s1 where v: "createShader gl (gl_VERTEX_SHADER gl) (src_vertex srcs) s = (rv, s1)"
    by (cases "createShader gl (gl_VERTEX_SHADER gl) (src_vertex srcs) s")
  have s1: "bindings s1 = bindings s"
    using bindings_createShader [OF assms(1), of gl "gl_VERTEX_SHADER gl" s] v by simp
  obtain rf s2 where f: "createShader gl (gl_FRAGMENT_SHADER gl) (src_fragment srcs) s1 = (rf, s2)"
    by (cases "createShader gl (gl_FRAGMENT_SHADER gl) (src_fragment srcs) s1")
  have s2: "bindings s2 = bindings s"
    using bindings_createShader [OF assms(2), of gl "gl_FRAGMENT_SHADER gl" s1] f s1 by simp
  show ?thesis
    using v f s1 s2 by (cases rv; cases rf) (simp_all add: createShaders_def)
qed

lemma bindings_attrib:
  assumes "data_keeps_bindings fd"
  shows "bindings (snd (attrib gl sz fd dv index tgt usg s)) = bindings s"
proof -
  obtain r s1 where f: "(case fd of Data d \<Rightarrow> (Inr d, s) | DataFn f \<Rightarrow> f s) = (r, s1)"
    by (cases "case fd of Data d \<Rightarrow> (Inr d, s) | DataFn f \<Rightarrow> f s")
  have s1: "bindings s1 = bindings s"
  proof (cases fd)
    case (Data d)
    with f show ?thesis by simp
  next
    case (DataFn g)
    with assms have "bindings (snd (g s)) = bindings s"
      by (simp add: data_keeps_bindings_def keeps_bindings_def)
    with f DataFn show ?thesis by simp
  qed
  show ?thesis
    using s1 by (cases r) (simp_all add: attrib_def f Let_def)
qed

lemma bindings_addVertexAttrib:
  assumes "\<forall>i t u. keeps_bindings (attribFn i t u)"
  shows "bindings (snd (addVertexAttrib gl tgt name attribFn usage_opt s)) = bindings s"
proof -
  let ?s1 = "snd (create GL_createBuffer s)"
  let ?buffer = "next_obj s"
  let ?s2 = "issue (GL_bindBuffer tgt (Some ?buffer)) ?s1"
  obtain index s3 where b: "bindVertexAttribBuffer gl tgt ?buffer name ?s2 = (index, s3)"
    by (cases "bindVertexAttribBuffer gl tgt ?buffer name ?s2")
  have s3: "bindings s3 = bindings s"
    using bindings_bindVertexAttribBuffer [of gl tgt ?buffer name ?s2] b by simp
  have unfold: "addVertexAttrib gl tgt name attribFn usage_opt s =
     (case index of
        None \<Rightarrow> (Inr \<lparr>va_buffer = ?buffer, va_data = None\<rparr>, leave_using (bufferDisposables gl tgt) s3)
      | Some i \<Rightarrow>
          (case attribFn i tgt (case usage_opt of None \<Rightarrow> gl_STATIC_DRAW gl | Some us \<Rightarrow> us) s3 of
             (Inl e, s4) \<Rightarrow> (Inl e, leave_using (bufferDisposables gl tgt) s4)
           | (Inr dat, s4) \<Rightarrow>
               (Inr \<lparr>va_buffer = ?buffer, va_data = dat\<rparr>, leave_using (bufferDisposables gl tgt) s4)))"
    using b by (simp add: addVertexAttrib_def useBuffer_def create_def Let_def)
  show ?thesis
  proof (cases index)
    case None
    then show ?thesis using s3 by (simp add: unfold)
  next
    case (Some i)
    let ?u = "case usage_opt of None \<Rightarrow> gl_STATIC_DRAW gl | Some us \<Rightarrow> us"
    obtain r s4 where c: "attribFn i tgt ?u s3 = (r, s4)"
      by (cases "attribFn i tgt ?u s3")
    have "bindings (snd (attribFn i tgt ?u s3)) = bindings s3"
      using assms by (simp add: keeps_bindings_def)
    then have s4: "bindings s4 = bindings s" using c s3 by simp
    show ?thesis
      using Some c s4 by (cases r) (simp_all add: unfold)
  qed
qed

lemma bindings_addVertexAttribs_loop:
  assumes "\<forall>(name, t, f, u) \<in> set attribs. \<forall>i t' u'. keeps_bindings (f i t' u')"
  shows "bindings (snd (addVertexAttribs_loop gl attribs acc s)) = bindings s"
  using assms
proof (induction gl attribs acc s rule: addVertexAttribs_loop.induct)
  case (1 gl acc s)
  then show ?case by simp
next
  case (2 gl name tgt attribFn usage_opt attribs acc s)
  let ?usg = "case usage_opt of None \<Rightarrow> gl_STATIC_DRAW gl | Some us \<Rightarrow> us"
  obtain r s1 where r: "addVertexAttrib gl tgt name attribFn (Some ?usg) s = (r, s1)"
    by (cases "addVertexAttrib gl tgt name attribFn (Some ?usg) s")
  have k: "\<forall>i t u. keeps_bindings (attribFn i t u)"
    using "2.prems" by simp
  have s1: "bindings s1 = bindings s"
    using bindings_addVertexAttrib [OF k, of gl tgt name "Some ?usg" s] r by simp
  show ?case
  proof (cases r)
    case (Inl e)
    with r s1 show ?thesis by simp
  next
    case (Inr va)
    have rest: "\<forall>(name, t, f, u) \<in> set attribs. \<forall>i t' u'. keeps_bindings (f i t' u')"
      using "2.prems" by simp
    note ih = "2.IH" [OF refl r [symmetric] Inr refl refl rest]
    show ?thesis
      using r Inr ih s1 by (simp add: Let_def)
  qed
qed

lemma bindings_dispose_all:
  assumes "\<forall>d \<in> set ds. keeps_bindings d"
  shows "bindings (snd (dispose_all ds s)) = bindings s"
  using assms
proof (induction ds arbitrary: s)
  case Nil
  then show ?case by simp
next
  case (Cons d ds)
  obtain r s1 where d: "d s = (r, s1)" by (cases "d s")
  have "bindings (snd (d s)) = bindings s"
    using Cons.prems by (simp add: keeps_bindings_def)
  then have s1: "bindings s1 = bindings s" using d by simp
  show ?case
    using d s1 Cons.IH [of s1] Cons.prems by (cases r) simp_all
qed

lemma bindings_writeAttribRange:
  "bindings (snd (writeAttribRange gl b r s)) = bindings s"
proof -
  obtain res s1 where g: "getDataRange b r s = (res, s1)"
    by (cases "getDataRange b r s")
  have "bindings s1 = bindings s"
    using getDataRange_frame [of b r s] g by (simp add: bindings_def)
  then show ?thesis
    using g by (cases res) (simp_all add: writeAttribRange_def bindings_bufferSubData)
qed

lemma bindings_binding_functions:
  "bindings (useProgram p s) = (Some p, currentVao s)"
  "bindings (useVao v s) = (currentProgram s, Some v)"
  "bindings (use p v s) = (Some p, Some v)"
  "bindings (snd (createProgram sh s)) = (Some (fst (createProgram sh s)), currentVao s)"
  by (auto simp: bindings_def useProgram_def useVao_def use_def createProgram_def issue_def
      create_def Let_def)


text \<open>
  C7. No function of the module other than \<open>useProgram\<close>, \<open>useVao\<close>, \<open>use\<close> and
  \<open>createProgram\<close> changes \<open>currentProgram\<close> or \<open>currentVao\<close>: the state each of them
  leaves has the bindings of the state it was given, also when it throws, provided the
  code of the caller that it runs (attribute callbacks, data and source functions,
  disposers of descriptors) leaves the bindings as they are. The disposers the module
  makes itself do. The four binding functions set the variables to their arguments,
  \<open>createProgram\<close> to the program it created. (\<open>canvas\<close>, \<open>gl\<close> and \<open>reset\<close> are not
  functions of the module: the latter two are the context and a function of a vendor
  library made before the variables exist.)
\<close>

theorem bindings_frame:
  assumes "\<forall>i t u. keeps_bindings (attribFn i t u)"
    and "\<forall>(name, t, f, u) \<in> set attribs. \<forall>i t' u'. keeps_bindings (f i t' u')"
    and "data_keeps_bindings fd"
    and "src_keeps_bindings src"
    and "src_keeps_bindings (src_vertex srcs)" and "src_keeps_bindings (src_fragment srcs)"
    and "\<forall>(name, d) \<in> set bufs. keeps_bindings (dispose d)"
    and "\<forall>x \<in> set textures. keeps_bindings (tex_dispose x)"
  shows "bindings (activateTextures gl textures s) = bindings s \<and>
         bindings (snd (addVertexAttrib gl tgt name attribFn usage_opt s)) = bindings s \<and>
         bindings (snd (addVertexAttribs gl attribs s)) = bindings s \<and>
         bindings (snd (attrib gl sz fd dv index tgt usg s)) = bindings s \<and>
         bindings (snd (bindVertexAttribBuffer gl tgt buf name s)) = bindings s \<and>
         bindings (bufferSubData gl b dat off s) = bindings s \<and>
         bindings (snd (createShader gl type src s)) = bindings s \<and>
         bindings (snd (createShaders gl srcs s)) = bindings s \<and>
         bindings (snd (createTexture gl tgt unif params s)) = bindings s \<and>
         bindings (snd (createVertexArray s)) = bindings s \<and>
         bindings (snd (deleteAttribs bufs s)) = bindings s \<and>
         bindings (deleteShaders shaders s) = bindings s \<and>
         bindings (snd (deleteTextures textures s)) = bindings s \<and>
         bindings (setBuffer b dat usage_opt s) = bindings s \<and>
         bindings (snd (uniforms_get gl name s)) = bindings s \<and>
         bindings (snd (useArrayBuffer gl buf s)) = bindings s \<and>
         bindings (snd (useBuffer gl tgt buf s)) = bindings s \<and>
         bindings (snd (writeAttribRange gl b r s)) = bindings s \<and>
         bindings (leave_using (fst (useBuffer gl tgt buf s)) s') = bindings s' \<and>
         bindings (leave_using (fst (useArrayBuffer gl buf s)) s') = bindings s' \<and>
         keeps_bindings (tex_dispose (fst (createTexture gl tgt unif params s))) \<and>
         bindings (useProgram p s) = (Some p, currentVao s) \<and>
         bindings (useVao v s) = (currentProgram s, Some v) \<and>
         bindings (use p v s) = (Some p, Some v) \<and>
         bindings (snd (createProgram shaders s)) = (Some (fst (createProgram shaders s)), currentVao s)"
proof -
  have da: "bindings (snd (deleteAttribs bufs s)) = bindings s"
    unfolding deleteAttribs_def using assms(7) by (intro bindings_dispose_all) auto
  have dt: "bindings (snd (deleteTextures textures s)) = bindings s"
    unfolding deleteTextures_def using assms(8) by (intro bindings_dispose_all) auto
  have aa: "bindings (snd (addVertexAttribs gl attribs s)) = bindings s"
    unfolding addVertexAttribs_def using assms(2) by (rule bindings_addVertexAttribs_loop)
  have lu: "bindings (leave_using (fst (useBuffer gl tgt buf s)) s') = bindings s'"
    by (simp add: useBuffer_def)
  have la: "bindings (leave_using (fst (useArrayBuffer gl buf s)) s') = bindings s'"
    by (simp add: useArrayBuffer_def)
  have td: "keeps_bindings (tex_dispose (fst (createTexture gl tgt unif params s)))"
    by (simp add: keeps_bindings_def createTexture_def create_def Let_def)
  show ?thesis
    by (intro conjI bindings_activateTextures bindings_addVertexAttrib [OF assms(1)] aa
        bindings_attrib [OF assms(3)] bindings_bindVertexAttribBuffer bindings_bufferSubData
        bindings_createShader [OF assms(4)] bindings_createShaders [OF assms(5,6)]
        bindings_createTexture bindings_createVertexArray da bindings_deleteShaders dt
        bindings_setBuffer bindings_uniforms_get bindings_useArrayBuffer(1) bindings_useBuffer(1)
        bindings_writeAttribRange lu la td bindings_binding_functions)
qed

lemma example_keeps:
  "\<forall>i t u. keeps_bindings (attrib example_gl 2 (Data example_data) None i t u)"
  "\<forall>(name, t, f, u) \<in> set example_attribs. \<forall>i t' u'. keeps_bindings (f i t' u')"
  "data_keeps_bindings (Data example_data)"
  "src_keeps_bindings (Src [0x61])"
  "src_keeps_bindings (SrcFn (\<lambda>s. (Inr [0x62], s)))"
  "\<forall>(name, d) \<in> set [([0x61 :: 16 word], example_buffer)]. keeps_bindings (dispose d)"
  "\<forall>x \<in> set ([] :: gltexture list). keeps_bindings (tex_dispose x)"
  by (simp_all add: keeps_bindings_def bindings_attrib data_keeps_bindings_def
      src_keeps_bindings_def example_attribs_def example_buffer_def)


theorem bindings_frame_witness:
  "bindings (use 7 3 initial) = (Some 7, Some 3) \<and>
   bindings (snd (addVertexAttribs example_gl example_attribs (use 7 3 initial))) = (Some 7, Some 3) \<and>
   bindings (snd (createShaders example_gl
      \<lparr>src_vertex = Src [0x61], src_fragment = SrcFn (\<lambda>s. (Inr [0x62], s))\<rparr> (use 7 3 initial))) =
     (Some 7, Some 3) \<and>
   bindings (snd (deleteAttribs [([0x61], example_buffer)] (use 7 3 initial))) = (Some 7, Some 3) \<and>
   bindings (snd (writeAttribRange example_gl example_buffer range_a (use 7 3 initial))) =
     (Some 7, Some 3) \<and>
   bindings (snd (createVertexArray (use 7 3 initial))) = (Some 7, Some 3) \<and>
   bindings (useProgram 9 (use 7 3 initial)) = (Some 9, Some 3)"
proof -
  let ?srcs = "\<lparr>src_vertex = Src [0x61], src_fragment = SrcFn (\<lambda>s. (Inr [0x62], s))\<rparr>"
  have v: "src_keeps_bindings (src_vertex ?srcs)" and f: "src_keeps_bindings (src_fragment ?srcs)"
    using example_keeps(4,5) by simp_all
  note th = bindings_frame [OF example_keeps(1,2,3,4) v f example_keeps(6,7),
      where gl = example_gl and s = "use 7 3 initial" and b = example_buffer and r = range_a
        and p = 9 and v = 3]
  have b: "bindings (use 7 3 initial) = (Some 7, Some 3)"
    and c: "currentVao (use 7 3 initial) = Some 3"
    by (simp_all add: bindings_def use_def useProgram_def useVao_def issue_def initial_def)
  show ?thesis
    using th by (simp add: b c)
qed

end
